theory Spec2Isabelle
  imports Main "HOL-Library.AList" "HOL-Library.Sublist"
begin

section \<open>The padding-free acceleration plugin\<close>

text \<open>
  A shallow embedding of \<^verbatim>\<open>framework_plugin_padding_free.py\<close>. The plugin is glue
  code: every object it touches (model, accelerator, data loader, collate function, the
  model patcher, the plugin registry) belongs to the host frameworks. Host objects live
  in an explicit store, so that object identity, attribute mutation and the creation of
  objects are visible; the callables of the host are a parameter.
\<close>

subsection \<open>Versions\<close>

text \<open>
  \<^verbatim>\<open>packaging.version\<close> is an external library. A parsed version is its release
  segment with the optional pre-, post- and development-release parts; versions are
  ordered by the library's comparison key: the release without its trailing zeros, then
  the pre-release (a development release without pre- and post-release sorts before
  every pre-release, a final release after them), the post-release and the development
  release. Local version labels are not modelled.
\<close>

datatype pre_tag = Alpha | Beta | RC

record Version =
  epoch :: nat
  release :: "nat list"
  pre :: "(pre_tag \<times> nat) option"
  post :: "nat option"
  dev :: "nat option"

text \<open>Python's comparison of tuples of numbers: lexicographic, a proper prefix first.\<close>

fun tuple_lt :: "nat list \<Rightarrow> nat list \<Rightarrow> bool" where
  "tuple_lt [] [] = False"
| "tuple_lt [] (y # ys) = True"
| "tuple_lt (x # xs) [] = False"
| "tuple_lt (x # xs) (y # ys) = (x < y \<or> (x = y \<and> tuple_lt xs ys))"

fun pre_rank :: "pre_tag \<Rightarrow> nat" where
  "pre_rank Alpha = 0"
| "pre_rank Beta = 1"
| "pre_rank RC = 2"

text \<open>
  The components of the key. The library's \<^verbatim>\<open>NegativeInfinity\<close> and
  \<^verbatim>\<open>Infinity\<close> are the leading 0 and 2 of a component, a present part has the
  leading 1.
\<close>

definition key_release :: "Version \<Rightarrow> nat list" where
  "key_release v = rev (dropWhile (\<lambda>x. x = 0) (rev (release v)))"

definition key_pre :: "Version \<Rightarrow> nat list" where
  "key_pre v =
     (case pre v of
        None \<Rightarrow> (if post v = None \<and> dev v \<noteq> None then [0] else [2])
      | Some (t, n) \<Rightarrow> [1, pre_rank t, n])"

definition key_post :: "Version \<Rightarrow> nat list" where
  "key_post v = (case post v of None \<Rightarrow> [0] | Some n \<Rightarrow> [1, n])"

definition key_dev :: "Version \<Rightarrow> nat list" where
  "key_dev v = (case dev v of None \<Rightarrow> [2] | Some n \<Rightarrow> [1, n])"

definition version_lt :: "Version \<Rightarrow> Version \<Rightarrow> bool" where
  "version_lt a b =
     (epoch a < epoch b \<or> (epoch a = epoch b \<and>
       (tuple_lt (key_release a) (key_release b) \<or> (key_release a = key_release b \<and>
         (tuple_lt (key_pre a) (key_pre b) \<or> (key_pre a = key_pre b \<and>
           (tuple_lt (key_post a) (key_post b) \<or> (key_post a = key_post b \<and>
             tuple_lt (key_dev a) (key_dev b)))))))))"

text \<open>
  Parsing, for release-only strings such as \<^verbatim>\<open>"4.44"\<close>: digit groups separated by
  dots. Any other string is outside this parser (\<open>None\<close>). A digit is a character
  with a code from 48 to 57.
\<close>

definition digit_val :: "char \<Rightarrow> nat option" where
  "digit_val c =
     (let n = (of_char c :: nat)
      in if 48 \<le> n \<and> n \<le> 57 then Some (n - 48) else None)"

text \<open>
  \<open>parse_release s cur acc\<close> reads \<open>s\<close> from the left: \<open>cur\<close> is the number of the
  digit group being read (\<open>None\<close> before its first digit), \<open>acc\<close> the groups read.
\<close>

fun parse_release :: "string \<Rightarrow> nat option \<Rightarrow> nat list \<Rightarrow> nat list option" where
  "parse_release [] None acc = None"
| "parse_release [] (Some n) acc = Some (acc @ [n])"
| "parse_release (c # cs) cur acc =
     (if c = CHR ''.'' then
        (case cur of None \<Rightarrow> None | Some n \<Rightarrow> parse_release cs None (acc @ [n]))
      else
        (case digit_val c of
           None \<Rightarrow> None
         | Some d \<Rightarrow> parse_release cs (Some (10 * (case cur of None \<Rightarrow> 0 | Some n \<Rightarrow> n) + d)) acc))"

definition version_parse :: "string \<Rightarrow> Version option" where
  "version_parse s =
     (case parse_release s None [] of
        None \<Rightarrow> None
      | Some r \<Rightarrow> Some \<lparr>epoch = 0, release = r, pre = None, post = None, dev = None\<rparr>)"

text \<open>\<^verbatim>\<open>TRANSFORMERS_VERSION = "4.44"\<close>: the version where padding-free was merged.\<close>

definition TRANSFORMERS_VERSION :: string where
  "TRANSFORMERS_VERSION = ''4.44''"

text \<open>
  \<^verbatim>\<open>version.parse(transformers_version) < version.parse(TRANSFORMERS_VERSION)\<close>.
  The installed version is an import from the host; the embedding takes it parsed.
\<close>

datatype error = AttributeError | TypeError | IndexError | InvalidVersion
  | AccelerationPluginConfigError | HostError string

definition below_transformers_version :: "Version \<Rightarrow> error + bool" where
  "below_transformers_version transformers_version =
     (case version_parse TRANSFORMERS_VERSION of
        None \<Rightarrow> Inl InvalidVersion
      | Some t \<Rightarrow> Inr (version_lt transformers_version t))"

subsection \<open>Host objects\<close>

text \<open>
  A class is its module and its name: the two \<^verbatim>\<open>DataCollatorWithFlattening\<close> classes
  share a name and are different classes. An object has its class, the other classes of
  its method resolution order, and the attributes that attribute access sees.
\<close>

type_synonym addr = nat
type_synonym cls = "string \<times> string"

text \<open>
  Values: references to objects of the store, callables of the host (opaque, named by
  a number; a bound method such as the accelerator's own \<^verbatim>\<open>prepare\<close> is one), and
  the bound method that the plugin builds with \<^verbatim>\<open>MethodType(prepare, accelerator)\<close>:
  \<open>VPrepare self old_prepare DataCollatorWithFlattening\<close> holds the object it is bound
  to and the two variables its body closes over.
\<close>

datatype val =
    VNone
  | VBool bool
  | VInt int
  | VStr string
  | VRef addr
  | VHost nat
  | VPrepare val val cls

record obj =
  klass :: cls
  bases :: "cls list"
  attrs :: "string \<rightharpoonup> val"

type_synonym heap = "(addr \<times> obj) list"

definition DataLoader :: cls where
  "DataLoader = (''torch.utils.data'', ''DataLoader'')"

definition DataCollatorForSeq2Seq :: cls where
  "DataCollatorForSeq2Seq = (''transformers'', ''DataCollatorForSeq2Seq'')"

definition ilab_DataCollatorWithFlattening :: cls where
  "ilab_DataCollatorWithFlattening =
     (''fms_acceleration_ilab.ilab_utils'', ''DataCollatorWithFlattening'')"

definition transformers_DataCollatorWithFlattening :: cls where
  "transformers_DataCollatorWithFlattening = (''transformers'', ''DataCollatorWithFlattening'')"

text \<open>\<^verbatim>\<open>isinstance(v, c)\<close>: only an object of the store can be an instance of a host class.\<close>

fun isinstance :: "heap \<Rightarrow> val \<Rightarrow> cls \<Rightarrow> bool" where
  "isinstance h (VRef a) c =
     (case map_of h a of
        None \<Rightarrow> False
      | Some ob \<Rightarrow> c = klass ob \<or> c \<in> set (bases ob))"
| "isinstance h v c = False"

text \<open>Attribute access and assignment; \<^verbatim>\<open>None\<close> and the other values have no such attribute.\<close>

fun getattr :: "heap \<Rightarrow> val \<Rightarrow> string \<Rightarrow> error + val" where
  "getattr h (VRef a) name =
     (case map_of h a of
        None \<Rightarrow> Inl AttributeError
      | Some ob \<Rightarrow> (case attrs ob name of None \<Rightarrow> Inl AttributeError | Some v \<Rightarrow> Inr v))"
| "getattr h v name = Inl AttributeError"

fun setattr :: "heap \<Rightarrow> val \<Rightarrow> string \<Rightarrow> val \<Rightarrow> error + heap" where
  "setattr h (VRef a) name v =
     (case map_of h a of
        None \<Rightarrow> Inl AttributeError
      | Some ob \<Rightarrow> Inr (AList.update a (ob\<lparr>attrs := (attrs ob)(name \<mapsto> v)\<rparr>) h))"
| "setattr h x name v = Inl AttributeError"

text \<open>A new object gets an address that no object of the store has.\<close>

fun fresh :: "heap \<Rightarrow> addr" where
  "fresh [] = 0"
| "fresh ((a, ob) # h) = max (Suc a) (fresh h)"

text \<open>
  Modelled from the spec: the constructors of the two \<^verbatim>\<open>DataCollatorWithFlattening\<close>
  classes are not under src/ (one is in \<^verbatim>\<open>ilab_utils\<close>, one in transformers). A call
  \<^verbatim>\<open>DataCollatorWithFlattening()\<close> creates an object of that class; the attributes the
  constructor gives it are not modelled.
\<close>

definition construct :: "cls \<Rightarrow> heap \<Rightarrow> val \<times> heap" where
  "construct c h =
     (let a = fresh h
      in (VRef a, AList.update a \<lparr>klass = c, bases = [], attrs = Map.empty\<rparr> h))"

subsection \<open>The state of the host\<close>

text \<open>
  Modelled from the spec: \<^verbatim>\<open>ModelPatcher\<close> (fms_acceleration.model_patcher) and
  \<^verbatim>\<open>AccelerationPlugin.register_plugin\<close> are not under src/. The registries own their
  rules and plugins; a registration call is recorded in the order it is made. A rule is
  the arguments the plugin gives to \<^verbatim>\<open>ModelPatcherRule\<close>; a forward builder is the
  \<^verbatim>\<open>functools.partial\<close> of a named function with keyword arguments.
\<close>

datatype forward_builder = Partial string "(string \<times> val) list"

record ModelPatcherRule =
  rule_id :: string
  trigger :: "obj \<Rightarrow> bool"
  forward_builder :: forward_builder

record state =
  heap :: heap
  patcher_rules :: "ModelPatcherRule list"
  warnings :: "string list"
  plugins :: "(string \<times> string list) list"

definition ModelPatcher_register :: "ModelPatcherRule \<Rightarrow> state \<Rightarrow> state" where
  "ModelPatcher_register rule st = st\<lparr>patcher_rules := patcher_rules st @ [rule]\<rparr>"

definition warnings_warn :: "string \<Rightarrow> state \<Rightarrow> state" where
  "warnings_warn msg st = st\<lparr>warnings := warnings st @ [msg]\<rparr>"

definition register_plugin :: "string \<Rightarrow> string list \<Rightarrow> state \<Rightarrow> state" where
  "register_plugin plugin configuration_and_paths st =
     st\<lparr>plugins := plugins st @ [(plugin, configuration_and_paths)]\<rparr>"

subsection \<open>The plugin\<close>

text \<open>
  The configuration is a nested dictionary. Modelled from the spec:
  \<^verbatim>\<open>AccelerationPlugin.__init__\<close> and \<^verbatim>\<open>_check_config_and_maybe_check_values\<close> are
  not under src/ (they are the base class's). The base constructor keeps the
  configuration; the check follows the dotted key path into the configuration and
  accepts the value found there when it is one of \<^verbatim>\<open>values\<close>, and raises
  \<^verbatim>\<open>AccelerationPluginConfigError\<close> otherwise.
\<close>

datatype config = Leaf val | Dict "(string \<times> config) list"

fun split_on :: "char \<Rightarrow> string \<Rightarrow> string \<Rightarrow> string list" where
  "split_on sep [] cur = [cur]"
| "split_on sep (c # cs) cur =
     (if c = sep then cur # split_on sep cs [] else split_on sep cs (cur @ [c]))"

fun trace_key_path :: "config \<Rightarrow> string list \<Rightarrow> config option"
  and trace_items :: "(string \<times> config) list \<Rightarrow> string \<Rightarrow> string list \<Rightarrow> config option" where
  "trace_key_path c [] = Some c"
| "trace_key_path (Leaf v) (k # ks) = None"
| "trace_key_path (Dict kvs) (k # ks) = trace_items kvs k ks"
| "trace_items [] k ks = None"
| "trace_items ((k', c) # kvs) k ks =
     (if k' = k then trace_key_path c ks else trace_items kvs k ks)"

definition check_config_and_maybe_check_values ::
    "config \<Rightarrow> string \<Rightarrow> config list \<Rightarrow> error + config" where
  "check_config_and_maybe_check_values configurations key values =
     (case trace_key_path configurations (split_on CHR ''.'' key []) of
        None \<Rightarrow> Inl AccelerationPluginConfigError
      | Some t \<Rightarrow> if t \<in> set values then Inr t else Inl AccelerationPluginConfigError)"

record plugin =
  configurations :: config
  self_method :: config

definition require_packages :: "string list" where
  "require_packages = [''flash_attn'']"

text \<open>\<^verbatim>\<open>PaddingFreeAccelerationPlugin.__init__\<close>\<close>

definition init :: "config \<Rightarrow> error + plugin" where
  "init cfg =
     (case check_config_and_maybe_check_values cfg
             ''training.attention.padding_free.method'' [Leaf (VStr ''huggingface'')] of
        Inl e \<Rightarrow> Inl e
      | Inr m \<Rightarrow> Inr \<lparr>configurations = cfg, self_method = m\<rparr>)"

definition requires_agumentation :: "plugin \<Rightarrow> bool" where
  "requires_agumentation self = True"

text \<open>
  A model of the host always has \<^verbatim>\<open>config.model_type\<close>; the plugin reads nothing
  else of it. The record is the reference to the model with that attribute.
\<close>

record model =
  model_ref :: addr
  config_model_type :: string

definition endswith :: "string \<Rightarrow> string \<Rightarrow> bool" where
  "endswith s suf = suffix suf s"

definition is_flash_attn_2 :: "obj \<Rightarrow> bool" where
  "is_flash_attn_2 module =
     (if endswith (snd (klass module)) ''FlashAttention2'' then True else False)"

definition not_replaced_message :: string where
  "not_replaced_message =
     ''transformers version is equal or later                 than '' @ TRANSFORMERS_VERSION
       @ '', attention forward will not be replaced.''"

definition augmentation ::
    "Version \<Rightarrow> plugin \<Rightarrow> model \<Rightarrow> val \<Rightarrow> val \<Rightarrow> state \<Rightarrow> (error + model \<times> val) \<times> state" where
  "augmentation transformers_version self model train_args modifiable_args st =
     (case below_transformers_version transformers_version of
        Inl e \<Rightarrow> (Inl e, st)
      | Inr below \<Rightarrow>
          if below then
            (let model_type = config_model_type model
             in (Inr (model, modifiable_args),
                 ModelPatcher_register
                   \<lparr>rule_id = model_type @ ''-pad-free'',
                    trigger = is_flash_attn_2,
                    forward_builder = Partial ''build_fa_forward'' [(''causal'', VBool True)]\<rparr>
                   st))
          else (Inr (model, modifiable_args), warnings_warn not_replaced_message st))"

text \<open>
  The callables of the host: \<open>host f args device_placement h\<close> is what the host's
  callable \<open>f\<close> returns or raises for these arguments, and the store it leaves.
\<close>

type_synonym host = "nat \<Rightarrow> val list \<Rightarrow> val \<Rightarrow> heap \<Rightarrow> (error + val) \<times> heap"

text \<open>
  Calling a value with positional arguments and the keyword \<^verbatim>\<open>device_placement\<close>.
  The second equation is the body of the local function \<^verbatim>\<open>prepare\<close> of
  \<^verbatim>\<open>_patch_dataloader\<close>; \<^verbatim>\<open>args[0]\<close> of no arguments raises \<^verbatim>\<open>IndexError\<close>.
\<close>

fun call :: "host \<Rightarrow> val \<Rightarrow> val list \<Rightarrow> val \<Rightarrow> heap \<Rightarrow> (error + val) \<times> heap" where
  "call host (VHost f) args device_placement h = host f args device_placement h"
| "call host (VPrepare self old_prepare DataCollatorWithFlattening) args device_placement h =
     (if length args > 1 then call host old_prepare args device_placement h
      else case args of
        [] \<Rightarrow> (Inl IndexError, h)
      | dataloader # rest \<Rightarrow>
          if \<not> isinstance h dataloader DataLoader
          then call host old_prepare args device_placement h
          else (case getattr h dataloader ''collate_fn'' of
                  Inl e \<Rightarrow> (Inl e, h)
                | Inr collate_fn \<Rightarrow>
                    if \<not> isinstance h collate_fn DataCollatorForSeq2Seq
                    then (Inl TypeError, h)
                    else (case construct DataCollatorWithFlattening h of
                            (new_collate_fn, h1) \<Rightarrow>
                              (case setattr h1 dataloader ''collate_fn'' new_collate_fn of
                                 Inl e \<Rightarrow> (Inl e, h1)
                               | Inr h2 \<Rightarrow> (Inr dataloader, h2)))))"
| "call host VNone args device_placement h = (Inl TypeError, h)"
| "call host (VBool b) args device_placement h = (Inl TypeError, h)"
| "call host (VInt i) args device_placement h = (Inl TypeError, h)"
| "call host (VStr s) args device_placement h = (Inl TypeError, h)"
| "call host (VRef a) args device_placement h = (Inl TypeError, h)"

text \<open>\<^verbatim>\<open>_patch_dataloader\<close>\<close>

definition patch_dataloader :: "Version \<Rightarrow> plugin \<Rightarrow> val \<Rightarrow> state \<Rightarrow> (error + unit) \<times> state" where
  "patch_dataloader transformers_version self accelerator st =
     (case below_transformers_version transformers_version of
        Inl e \<Rightarrow> (Inl e, st)
      | Inr below \<Rightarrow>
          (let DataCollatorWithFlattening =
                 (if below then ilab_DataCollatorWithFlattening
                  else transformers_DataCollatorWithFlattening)
           in case getattr (heap st) accelerator ''prepare'' of
                Inl e \<Rightarrow> (Inl e, st)
              | Inr old_prepare \<Rightarrow>
                  (case setattr (heap st) accelerator ''prepare''
                          (VPrepare accelerator old_prepare DataCollatorWithFlattening) of
                     Inl e \<Rightarrow> (Inl e, st)
                   | Inr h \<Rightarrow> (Inr (), st\<lparr>heap := h\<rparr>))))"

definition get_callbacks_and_ready_for_train ::
    "Version \<Rightarrow> plugin \<Rightarrow> val \<Rightarrow> val \<Rightarrow> state \<Rightarrow> (error + val list) \<times> state" where
  "get_callbacks_and_ready_for_train transformers_version self model accelerator st =
     (case patch_dataloader transformers_version self accelerator st of
        (Inl e, st') \<Rightarrow> (Inl e, st')
      | (Inr u, st') \<Rightarrow> (Inr [], st'))"

text \<open>The registration at the end of the module, run when the module is loaded.\<close>

definition module_load :: "state \<Rightarrow> state" where
  "module_load st =
     register_plugin ''PaddingFreeAccelerationPlugin'' [''training.attention.padding_free''] st"

subsection \<open>Concrete versions and objects\<close>

text \<open>The version 4.44, and two installed versions on either side of it.\<close>

definition v4_44 :: Version where
  "v4_44 = \<lparr>epoch = 0, release = [4, 44], pre = None, post = None, dev = None\<rparr>"

definition v4_43_3 :: Version where
  "v4_43_3 = \<lparr>epoch = 0, release = [4, 43, 3], pre = None, post = None, dev = None\<rparr>"

definition v4_45_0 :: Version where
  "v4_45_0 = \<lparr>epoch = 0, release = [4, 45, 0], pre = None, post = None, dev = None\<rparr>"

text \<open>
  A store with an accelerator (0) whose \<^verbatim>\<open>prepare\<close> is the host's, a data loader (1)
  whose collate function (2) is a \<^verbatim>\<open>DataCollatorForSeq2Seq\<close>, and a data loader (3)
  whose collate function (4) is of another class.
\<close>

definition example_heap :: heap where
  "example_heap =
     [(0, \<lparr>klass = (''accelerate'', ''Accelerator''), bases = [],
           attrs = [''prepare'' \<mapsto> VHost 0, ''device_placement'' \<mapsto> VBool True]\<rparr>),
      (1, \<lparr>klass = DataLoader, bases = [], attrs = [''collate_fn'' \<mapsto> VRef 2]\<rparr>),
      (2, \<lparr>klass = DataCollatorForSeq2Seq, bases = [], attrs = Map.empty\<rparr>),
      (3, \<lparr>klass = DataLoader, bases = [], attrs = [''collate_fn'' \<mapsto> VRef 4]\<rparr>),
      (4, \<lparr>klass = (''transformers'', ''DefaultDataCollator''), bases = [],
           attrs = Map.empty\<rparr>)]"

definition example_state :: state where
  "example_state = \<lparr>heap = example_heap, patcher_rules = [], warnings = [], plugins = []\<rparr>"

definition example_config :: config where
  "example_config =
     Dict [(''training'', Dict [(''attention'', Dict [(''padding_free'',
       Dict [(''method'', Leaf (VStr ''huggingface''))])])])]"

definition example_plugin :: plugin where
  "example_plugin =
     \<lparr>configurations = example_config, self_method = Leaf (VStr ''huggingface'')\<rparr>"

definition example_model :: model where
  "example_model = \<lparr>model_ref = 5, config_model_type = ''llama''\<rparr>"

text \<open>A host whose callables return the number of their positional arguments.\<close>

definition example_host :: host where
  "example_host f args device_placement h = (Inr (VInt (int (length args))), h)"

section \<open>Properties\<close>

subsection \<open>Auxiliary facts\<close>

lemma parse_TRANSFORMERS_VERSION: "version_parse TRANSFORMERS_VERSION = Some v4_44"
  by (simp add: version_parse_def TRANSFORMERS_VERSION_def digit_val_def v4_44_def)

lemma below_transformers_version_eq:
  "below_transformers_version tv = Inr (version_lt tv v4_44)"
  by (simp add: below_transformers_version_def parse_TRANSFORMERS_VERSION)

lemma v4_43_3_below: "version_lt v4_43_3 v4_44"
  by (simp add: version_lt_def v4_43_3_def v4_44_def key_release_def)

lemma v4_45_0_not_below: "\<not> version_lt v4_45_0 v4_44"
  by (simp add: version_lt_def v4_45_0_def v4_44_def key_release_def key_pre_def
      key_post_def key_dev_def)

text \<open>The address of a new object is above every address of the store.\<close>

lemma fresh_gt: "(a, ob) \<in> set h \<Longrightarrow> a < fresh h"
  by (induction h rule: fresh.induct) auto

lemma map_of_fresh: "map_of h (fresh h) = None"
proof (cases "map_of h (fresh h)")
  case None
  then show ?thesis .
next
  case (Some ob)
  then have "(fresh h, ob) \<in> set h" by (rule map_of_SomeD)
  then have "fresh h < fresh h" by (rule fresh_gt)
  then show ?thesis by simp
qed

text \<open>The patched method is never the method it wraps.\<close>

lemma VPrepare_neq_old: "VPrepare s p c \<noteq> p"
proof
  assume "VPrepare s p c = p"
  then have "size (VPrepare s p c) = size p" by simp
  then show False by simp
qed

lemma getattr_Inr:
  "getattr h v name = Inr x \<longleftrightarrow>
     (\<exists>a ob. v = VRef a \<and> map_of h a = Some ob \<and> attrs ob name = Some x)"
  by (cases v) (auto split: option.splits)

text \<open>\<^verbatim>\<open>_patch_dataloader\<close> on an object that has \<^verbatim>\<open>prepare\<close>, and on anything else.\<close>

lemma patch_dataloader_ok:
  assumes "map_of (heap st) a = Some acc" and "attrs acc ''prepare'' = Some old"
  shows "patch_dataloader tv self (VRef a) st =
           (Inr (), st\<lparr>heap := AList.update a
              (acc\<lparr>attrs := (attrs acc)(''prepare'' \<mapsto>
                   VPrepare (VRef a) old
                     (if version_lt tv v4_44 then ilab_DataCollatorWithFlattening
                      else transformers_DataCollatorWithFlattening))\<rparr>) (heap st)\<rparr>)"
  using assms by (simp add: patch_dataloader_def below_transformers_version_eq)

lemma patch_dataloader_fail:
  assumes "getattr (heap st) accelerator ''prepare'' = Inl e"
  shows "patch_dataloader tv self accelerator st = (Inl e, st)"
  using assms by (simp add: patch_dataloader_def below_transformers_version_eq)

text \<open>The three paths through the body of the patched \<^verbatim>\<open>prepare\<close>.\<close>

lemma call_prepare_raises:
  assumes "isinstance h dataloader DataLoader"
    and "getattr h dataloader ''collate_fn'' = Inr collate_fn"
    and "\<not> isinstance h collate_fn DataCollatorForSeq2Seq"
  shows "call host (VPrepare s old c) [dataloader] device_placement h = (Inl TypeError, h)"
  using assms by simp

lemma call_prepare_replaces:
  assumes "isinstance h dataloader DataLoader"
    and "getattr h dataloader ''collate_fn'' = Inr collate_fn"
    and "isinstance h collate_fn DataCollatorForSeq2Seq"
  shows "\<exists>h' ob.
           call host (VPrepare s old c) [dataloader] device_placement h = (Inr dataloader, h')
           \<and> getattr h' dataloader ''collate_fn'' = Inr (VRef (fresh h))
           \<and> map_of h (fresh h) = None
           \<and> map_of h' (fresh h) = Some ob \<and> klass ob = c"
proof -
  from assms(2) obtain d dl where d: "dataloader = VRef d" "map_of h d = Some dl"
    by (auto simp: getattr_Inr)
  have neq: "d \<noteq> fresh h" using d(2) map_of_fresh [of h] by auto
  show ?thesis
    using assms d neq
    by (simp add: construct_def Let_def update_conv' map_of_fresh)
qed

lemma call_prepare_passes:
  assumes "length args > 1 \<or> (\<exists>x. args = [x] \<and> \<not> isinstance h x DataLoader)"
  shows "call host (VPrepare s old c) args device_placement h
           = call host old args device_placement h"
  using assms by auto

text \<open>What a call of \<^verbatim>\<open>get_callbacks_and_ready_for_train\<close> that returns has done.\<close>

lemma get_callbacks_Inr:
  assumes "get_callbacks_and_ready_for_train tv self model accelerator st = (Inr cbs, st')"
  shows "\<exists>a acc old. accelerator = VRef a \<and> map_of (heap st) a = Some acc
           \<and> attrs acc ''prepare'' = Some old \<and> cbs = []
           \<and> patch_dataloader tv self accelerator st = (Inr (), st')"
proof (cases "getattr (heap st) accelerator ''prepare''")
  case (Inl e)
  then have "patch_dataloader tv self accelerator st = (Inl e, st)"
    by (rule patch_dataloader_fail)
  with assms show ?thesis by (simp add: get_callbacks_and_ready_for_train_def)
next
  case (Inr old)
  then obtain a acc where a: "accelerator = VRef a" "map_of (heap st) a = Some acc"
      "attrs acc ''prepare'' = Some old"
    by (auto simp: getattr_Inr)
  from assms a show ?thesis
    by (auto simp: get_callbacks_and_ready_for_train_def patch_dataloader_ok [OF a(2,3)])
qed

lemma get_callbacks_prepare:
  assumes "get_callbacks_and_ready_for_train tv self model accelerator st = (Inr cbs, st')"
    and "getattr (heap st') accelerator ''prepare'' = Inr prepare"
  shows "\<exists>old. getattr (heap st) accelerator ''prepare'' = Inr old \<and>
           prepare = VPrepare accelerator old
                (if version_lt tv v4_44 then ilab_DataCollatorWithFlattening
                 else transformers_DataCollatorWithFlattening)"
proof -
  from get_callbacks_Inr [OF assms(1)] obtain a acc old where a: "accelerator = VRef a"
      "map_of (heap st) a = Some acc" "attrs acc ''prepare'' = Some old"
      "patch_dataloader tv self accelerator st = (Inr (), st')"
    by blast
  from a(4) have "st' = st\<lparr>heap := AList.update a
              (acc\<lparr>attrs := (attrs acc)(''prepare'' \<mapsto>
                   VPrepare (VRef a) old
                     (if version_lt tv v4_44 then ilab_DataCollatorWithFlattening
                      else transformers_DataCollatorWithFlattening))\<rparr>) (heap st)\<rparr>"
    by (simp add: a(1) patch_dataloader_ok [OF a(2,3)])
  with assms(2) a(1,2,3) show ?thesis
    by (simp add: update_conv')
qed

text \<open>The example accelerator after the setup call, at a version below 4.44.\<close>

lemma example_get_callbacks:
  "version_lt tv v4_44 \<Longrightarrow>
   get_callbacks_and_ready_for_train tv self model (VRef 0) example_state
     = (Inr [], example_state\<lparr>heap := AList.update 0
              (\<lparr>klass = (''accelerate'', ''Accelerator''), bases = [],
                attrs = [''prepare'' \<mapsto>
                           VPrepare (VRef 0) (VHost 0) ilab_DataCollatorWithFlattening,
                         ''device_placement'' \<mapsto> VBool True]\<rparr>) example_heap\<rparr>)"
  by (simp add: get_callbacks_and_ready_for_train_def patch_dataloader_def
        below_transformers_version_eq example_state_def example_heap_def fun_upd_twist)

lemma example_prepare_before:
  "getattr (heap example_state) (VRef 0) ''prepare'' = Inr (VHost 0)"
  by (simp add: example_state_def example_heap_def)

lemma example_prepare_after:
  "getattr (heap (example_state\<lparr>heap := AList.update 0
              (\<lparr>klass = (''accelerate'', ''Accelerator''), bases = [],
                attrs = [''prepare'' \<mapsto>
                           VPrepare (VRef 0) (VHost 0) ilab_DataCollatorWithFlattening,
                         ''device_placement'' \<mapsto> VBool True]\<rparr>) example_heap\<rparr>)) (VRef 0) ''prepare''
     = Inr (VPrepare (VRef 0) (VHost 0) ilab_DataCollatorWithFlattening)"
  by (simp add: example_heap_def)

lemma init_example: "init example_config = Inr example_plugin"
  by (simp add: init_def check_config_and_maybe_check_values_def example_config_def
      example_plugin_def)

subsection \<open>The version gate of the attention patch\<close>

text \<open>
  Claim C1. For every model and training arguments, \<^verbatim>\<open>augmentation\<close> registers a
  rule with the model patcher if and only if the installed version is strictly below
  the parse of \<^verbatim>\<open>"4.44"\<close>. The rule registered has the id of the model type followed by
  \<^verbatim>\<open>-pad-free\<close>, and its trigger holds of exactly the modules whose class name ends
  with \<^verbatim>\<open>FlashAttention2\<close>. At a version that is equal or later, the rules of the
  patcher are what they were.
\<close>

theorem augmentation_registers_rule_iff_below:
  "version_parse TRANSFORMERS_VERSION = Some v4_44 \<and>
   patcher_rules (snd (augmentation tv self model train_args modifiable_args st)) =
     (if version_lt tv v4_44
      then patcher_rules st @
             [\<lparr>rule_id = config_model_type model @ ''-pad-free'',
               trigger = is_flash_attn_2,
               forward_builder = Partial ''build_fa_forward'' [(''causal'', VBool True)]\<rparr>]
      else patcher_rules st) \<and>
   (patcher_rules (snd (augmentation tv self model train_args modifiable_args st))
      \<noteq> patcher_rules st) = version_lt tv v4_44 \<and>
   (\<forall>module. is_flash_attn_2 module = suffix ''FlashAttention2'' (snd (klass module)))"
  by (simp add: parse_TRANSFORMERS_VERSION augmentation_def below_transformers_version_eq
      ModelPatcher_register_def warnings_warn_def is_flash_attn_2_def endswith_def)

theorem augmentation_registers_rule_iff_below_witness:
  "map rule_id (patcher_rules (snd (augmentation v4_43_3 example_plugin example_model VNone VNone
      example_state))) = [''llama-pad-free''] \<and>
   patcher_rules (snd (augmentation v4_45_0 example_plugin example_model VNone VNone
      example_state)) = []"
  using augmentation_registers_rule_iff_below
      [of v4_43_3 example_plugin example_model VNone VNone example_state]
    augmentation_registers_rule_iff_below
      [of v4_45_0 example_plugin example_model VNone VNone example_state]
    v4_43_3_below v4_45_0_not_below
  by (simp add: example_state_def example_model_def)

text \<open>
  Claim C2, as amended. When the installed version is 4.44 or later, \<^verbatim>\<open>augmentation\<close>
  is a no-op with a warning: it returns, it emits the one warning that the attention
  forward will not be replaced, and it changes nothing else of the state (no rule is
  registered, no object of the store is touched). The claim as stated speaks of the
  whole plugin, and fails for \<^verbatim>\<open>get_callbacks_and_ready_for_train\<close>, which
  replaces the \<^verbatim>\<open>prepare\<close> of the accelerator at such a version too.
\<close>

theorem augmentation_warns_and_changes_nothing_else:
  assumes "\<not> version_lt tv v4_44"
  shows "augmentation tv self model train_args modifiable_args st =
           (Inr (model, modifiable_args), st\<lparr>warnings := warnings st @ [not_replaced_message]\<rparr>)
         \<and> not_replaced_message =
             ''transformers version is equal or later                 than 4.44, attention forward will not be replaced.''"
  using assms
  by (simp add: augmentation_def below_transformers_version_eq warnings_warn_def
      not_replaced_message_def TRANSFORMERS_VERSION_def)

theorem augmentation_warns_and_changes_nothing_else_witness:
  "augmentation v4_45_0 example_plugin example_model VNone VNone example_state =
     (Inr (example_model, VNone), example_state\<lparr>warnings := [not_replaced_message]\<rparr>)"
  using augmentation_warns_and_changes_nothing_else
      [OF v4_45_0_not_below, of example_plugin example_model VNone VNone example_state]
  by (simp add: example_state_def)

theorem plugin_changes_state_at_4_45_counterexample:
  "below_transformers_version v4_45_0 = Inr False \<and>
   getattr (heap example_state) (VRef 0) ''prepare'' = Inr (VHost 0) \<and>
   getattr (heap (snd (get_callbacks_and_ready_for_train v4_45_0 example_plugin VNone (VRef 0)
      example_state))) (VRef 0) ''prepare''
     = Inr (VPrepare (VRef 0) (VHost 0) transformers_DataCollatorWithFlattening)"
  using v4_45_0_not_below
  by (simp add: below_transformers_version_eq example_state_def example_heap_def
      get_callbacks_and_ready_for_train_def patch_dataloader_def)

subsection \<open>The patched prepare\<close>

text \<open>
  Claim C3. Let \<^verbatim>\<open>get_callbacks_and_ready_for_train\<close> have patched the
  \<^verbatim>\<open>prepare\<close> of an accelerator. Called, in any later store, with exactly one
  argument that is a \<^verbatim>\<open>DataLoader\<close> whose \<^verbatim>\<open>collate_fn\<close> is not an instance of
  \<^verbatim>\<open>DataCollatorForSeq2Seq\<close>, the patched method raises \<^verbatim>\<open>TypeError\<close>; the store is
  as it was, so the data loader still has the \<^verbatim>\<open>collate_fn\<close> it had.
\<close>

theorem patched_prepare_raises_TypeError:
  assumes "get_callbacks_and_ready_for_train tv self model accelerator st = (Inr cbs, st')"
    and "getattr (heap st') accelerator ''prepare'' = Inr prepare"
    and "isinstance h dataloader DataLoader"
    and "getattr h dataloader ''collate_fn'' = Inr collate_fn"
    and "\<not> isinstance h collate_fn DataCollatorForSeq2Seq"
  shows "call host prepare [dataloader] device_placement h = (Inl TypeError, h)
         \<and> getattr (snd (call host prepare [dataloader] device_placement h))
               dataloader ''collate_fn'' = Inr collate_fn"
proof -
  from get_callbacks_prepare [OF assms(1,2)] obtain old c where
    "prepare = VPrepare accelerator old c"
    by blast
  then have "call host prepare [dataloader] device_placement h = (Inl TypeError, h)"
    by (simp only: call_prepare_raises [OF assms(3,4,5)])
  with assms(4) show ?thesis
    by simp
qed

theorem patched_prepare_raises_TypeError_witness:
  "call example_host
     (VPrepare (VRef 0) (VHost 0) ilab_DataCollatorWithFlattening) [VRef 3] VNone example_heap
   = (Inl TypeError, example_heap)"
proof -
  let ?st = "example_state\<lparr>heap := AList.update 0
              (\<lparr>klass = (''accelerate'', ''Accelerator''), bases = [],
                attrs = [''prepare'' \<mapsto>
                           VPrepare (VRef 0) (VHost 0) ilab_DataCollatorWithFlattening,
                         ''device_placement'' \<mapsto> VBool True]\<rparr>) example_heap\<rparr>"
  have 1: "get_callbacks_and_ready_for_train v4_43_3 example_plugin VNone (VRef 0) example_state
             = (Inr [], ?st)"
    by (rule example_get_callbacks [OF v4_43_3_below])
  have 2: "getattr (heap ?st) (VRef 0) ''prepare'' =
             Inr (VPrepare (VRef 0) (VHost 0) ilab_DataCollatorWithFlattening)"
    by (rule example_prepare_after)
  have 3: "isinstance example_heap (VRef 3) DataLoader"
    by (simp add: example_heap_def)
  have 4: "getattr example_heap (VRef 3) ''collate_fn'' = Inr (VRef 4)"
    by (simp add: example_heap_def)
  have 5: "\<not> isinstance example_heap (VRef 4) DataCollatorForSeq2Seq"
    by (simp add: example_heap_def DataCollatorForSeq2Seq_def)
  from patched_prepare_raises_TypeError [OF 1 2 3 4 5, of example_host VNone]
  show ?thesis
    by simp
qed

text \<open>
  Claim C4. Let \<^verbatim>\<open>get_callbacks_and_ready_for_train\<close> have patched the
  \<^verbatim>\<open>prepare\<close> of an accelerator. Called with exactly one argument that is a
  \<^verbatim>\<open>DataLoader\<close> whose \<^verbatim>\<open>collate_fn\<close> is an instance of
  \<^verbatim>\<open>DataCollatorForSeq2Seq\<close>, the patched method returns the very data loader it was
  given, and the \<^verbatim>\<open>collate_fn\<close> of that data loader is now an object that was not in
  the store before the call, of the \<^verbatim>\<open>DataCollatorWithFlattening\<close> class that the
  version selected.
\<close>

theorem patched_prepare_replaces_collate_fn:
  assumes "get_callbacks_and_ready_for_train tv self model accelerator st = (Inr cbs, st')"
    and "getattr (heap st') accelerator ''prepare'' = Inr prepare"
    and "isinstance h dataloader DataLoader"
    and "getattr h dataloader ''collate_fn'' = Inr collate_fn"
    and "isinstance h collate_fn DataCollatorForSeq2Seq"
  shows "\<exists>h' new ob.
           call host prepare [dataloader] device_placement h = (Inr dataloader, h')
           \<and> getattr h' dataloader ''collate_fn'' = Inr (VRef new)
           \<and> map_of h new = None
           \<and> map_of h' new = Some ob
           \<and> klass ob = (if version_lt tv v4_44 then ilab_DataCollatorWithFlattening
                          else transformers_DataCollatorWithFlattening)"
proof -
  from get_callbacks_prepare [OF assms(1,2)] obtain old where
    p: "prepare = VPrepare accelerator old
          (if version_lt tv v4_44 then ilab_DataCollatorWithFlattening
           else transformers_DataCollatorWithFlattening)"
    by blast
  from call_prepare_replaces [OF assms(3,4,5)] show ?thesis
    unfolding p by blast
qed

theorem patched_prepare_replaces_collate_fn_witness:
  "fst (call example_host
     (VPrepare (VRef 0) (VHost 0) ilab_DataCollatorWithFlattening) [VRef 1] VNone example_heap)
   = Inr (VRef 1)"
proof -
  let ?st = "example_state\<lparr>heap := AList.update 0
              (\<lparr>klass = (''accelerate'', ''Accelerator''), bases = [],
                attrs = [''prepare'' \<mapsto>
                           VPrepare (VRef 0) (VHost 0) ilab_DataCollatorWithFlattening,
                         ''device_placement'' \<mapsto> VBool True]\<rparr>) example_heap\<rparr>"
  have 1: "get_callbacks_and_ready_for_train v4_43_3 example_plugin VNone (VRef 0) example_state
             = (Inr [], ?st)"
    by (rule example_get_callbacks [OF v4_43_3_below])
  have 2: "getattr (heap ?st) (VRef 0) ''prepare'' =
             Inr (VPrepare (VRef 0) (VHost 0) ilab_DataCollatorWithFlattening)"
    by (rule example_prepare_after)
  have 3: "isinstance example_heap (VRef 1) DataLoader"
    by (simp add: example_heap_def)
  have 4: "getattr example_heap (VRef 1) ''collate_fn'' = Inr (VRef 2)"
    by (simp add: example_heap_def)
  have 5: "isinstance example_heap (VRef 2) DataCollatorForSeq2Seq"
    by (simp add: example_heap_def)
  from patched_prepare_replaces_collate_fn [OF 1 2 3 4 5, of example_host VNone]
  show ?thesis
    by auto
qed

text \<open>
  Claim C8. Let \<^verbatim>\<open>get_callbacks_and_ready_for_train\<close> have patched the
  \<^verbatim>\<open>prepare\<close> of an accelerator. Called with more than one positional argument, or
  with a single positional argument that is not a \<^verbatim>\<open>DataLoader\<close>, the patched method
  returns (or raises) what the accelerator's \<^verbatim>\<open>prepare\<close> of before the patch does for
  the same arguments and the same \<^verbatim>\<open>device_placement\<close>, and leaves the store that
  the original leaves.
\<close>

theorem patched_prepare_passes_through:
  assumes "get_callbacks_and_ready_for_train tv self model accelerator st = (Inr cbs, st')"
    and "getattr (heap st) accelerator ''prepare'' = Inr old_prepare"
    and "getattr (heap st') accelerator ''prepare'' = Inr prepare"
    and "length args > 1 \<or> (\<exists>x. args = [x] \<and> \<not> isinstance h x DataLoader)"
  shows "call host prepare args device_placement h
           = call host old_prepare args device_placement h"
proof -
  from get_callbacks_prepare [OF assms(1,3)] assms(2) obtain c where
    "prepare = VPrepare accelerator old_prepare c"
    by auto
  then show ?thesis
    by (simp only: call_prepare_passes [OF assms(4)])
qed

theorem patched_prepare_passes_through_witness:
  "call example_host (VPrepare (VRef 0) (VHost 0) ilab_DataCollatorWithFlattening)
      [VRef 1, VRef 3] VNone example_heap = (Inr (VInt 2), example_heap)
   \<and> call example_host (VPrepare (VRef 0) (VHost 0) ilab_DataCollatorWithFlattening)
      [VRef 2] VNone example_heap = (Inr (VInt 1), example_heap)"
proof -
  let ?st = "example_state\<lparr>heap := AList.update 0
              (\<lparr>klass = (''accelerate'', ''Accelerator''), bases = [],
                attrs = [''prepare'' \<mapsto>
                           VPrepare (VRef 0) (VHost 0) ilab_DataCollatorWithFlattening,
                         ''device_placement'' \<mapsto> VBool True]\<rparr>) example_heap\<rparr>"
  have 1: "get_callbacks_and_ready_for_train v4_43_3 example_plugin VNone (VRef 0) example_state
             = (Inr [], ?st)"
    by (rule example_get_callbacks [OF v4_43_3_below])
  have 2: "getattr (heap ?st) (VRef 0) ''prepare'' =
             Inr (VPrepare (VRef 0) (VHost 0) ilab_DataCollatorWithFlattening)"
    by (rule example_prepare_after)
  have 3: "length [VRef 1, VRef 3] > 1
             \<or> (\<exists>x. [VRef 1, VRef 3] = [x] \<and> \<not> isinstance example_heap x DataLoader)"
    by simp
  have 4: "length [VRef 2] > 1
             \<or> (\<exists>x. [VRef 2] = [x] \<and> \<not> isinstance example_heap x DataLoader)"
    by (simp add: example_heap_def DataLoader_def DataCollatorForSeq2Seq_def)
  show ?thesis
    using patched_prepare_passes_through [OF 1 example_prepare_before 2 3, of example_host VNone]
      patched_prepare_passes_through [OF 1 example_prepare_before 2 4, of example_host VNone]
    by (simp add: example_host_def)
qed

subsection \<open>Frame properties\<close>

text \<open>
  Claim C5. For every model, training arguments and modifiable arguments,
  \<^verbatim>\<open>augmentation\<close> returns the model and the modifiable arguments it was given, and the
  store of host objects after the call is the store before it: no object is created,
  destroyed or changed.
\<close>

theorem augmentation_returns_its_arguments:
  "fst (augmentation tv self model train_args modifiable_args st) = Inr (model, modifiable_args)
   \<and> heap (snd (augmentation tv self model train_args modifiable_args st)) = heap st"
  by (simp add: augmentation_def below_transformers_version_eq ModelPatcher_register_def
      warnings_warn_def)

theorem augmentation_returns_its_arguments_witness:
  "fst (augmentation v4_43_3 example_plugin example_model VNone (VRef 6) example_state)
     = Inr (example_model, VRef 6)
   \<and> heap (snd (augmentation v4_43_3 example_plugin example_model VNone (VRef 6) example_state))
     = example_heap"
  using augmentation_returns_its_arguments
      [of v4_43_3 example_plugin example_model VNone "VRef 6" example_state]
  by (simp add: example_state_def)

text \<open>
  Claim C6. For every accelerator (an object of the store that has \<^verbatim>\<open>prepare\<close>), one
  call of \<^verbatim>\<open>get_callbacks_and_ready_for_train\<close> changes the store only: the
  accelerator's \<^verbatim>\<open>prepare\<close> is another value than before, every other attribute of the
  accelerator, its class and its bases are what they were, every other object is what
  it was, and the store has the same objects. The patcher's rules, the warnings and the
  plugin registry are untouched.
\<close>

theorem get_callbacks_mutates_only_prepare:
  assumes "map_of (heap st) a = Some acc" and "attrs acc ''prepare'' = Some old"
  shows "\<exists>h' acc'.
           snd (get_callbacks_and_ready_for_train tv self model (VRef a) st) = st\<lparr>heap := h'\<rparr>
           \<and> map_of h' a = Some acc'
           \<and> attrs acc' ''prepare'' \<noteq> attrs acc ''prepare''
           \<and> (\<forall>name. name \<noteq> ''prepare'' \<longrightarrow> attrs acc' name = attrs acc name)
           \<and> klass acc' = klass acc \<and> bases acc' = bases acc
           \<and> (\<forall>b. b \<noteq> a \<longrightarrow> map_of h' b = map_of (heap st) b)
           \<and> fst ` set h' = fst ` set (heap st)"
proof -
  let ?p = "VPrepare (VRef a) old
              (if version_lt tv v4_44 then ilab_DataCollatorWithFlattening
               else transformers_DataCollatorWithFlattening)"
  let ?acc = "acc\<lparr>attrs := (attrs acc)(''prepare'' \<mapsto> ?p)\<rparr>"
  let ?h = "AList.update a ?acc (heap st)"
  have "(a, acc) \<in> set (heap st)"
    using assms(1) by (rule map_of_SomeD)
  then have dom: "a \<in> fst ` set (heap st)"
    by force
  have 1: "snd (get_callbacks_and_ready_for_train tv self model (VRef a) st) = st\<lparr>heap := ?h\<rparr>"
    by (simp add: get_callbacks_and_ready_for_train_def patch_dataloader_ok [OF assms])
  have 2: "map_of ?h a = Some ?acc"
    by (simp add: update_conv')
  have 3: "attrs ?acc ''prepare'' \<noteq> attrs acc ''prepare''"
    using assms(2) VPrepare_neq_old [of "VRef a" old] by simp
  have 4: "\<forall>name. name \<noteq> ''prepare'' \<longrightarrow> attrs ?acc name = attrs acc name"
    by simp
  have 5: "klass ?acc = klass acc \<and> bases ?acc = bases acc"
    by simp
  have 6: "\<forall>b. b \<noteq> a \<longrightarrow> map_of ?h b = map_of (heap st) b"
    by (simp add: update_conv')
  have 7: "fst ` set ?h = fst ` set (heap st)"
    using dom by (auto simp: dom_update)
  from 1 2 3 4 5 6 7 show ?thesis
    by blast
qed

theorem get_callbacks_mutates_only_prepare_witness:
  "patcher_rules (snd (get_callbacks_and_ready_for_train v4_43_3 example_plugin VNone (VRef 0)
      example_state)) = []
   \<and> map_of (heap (snd (get_callbacks_and_ready_for_train v4_43_3 example_plugin VNone (VRef 0)
      example_state))) 1 = map_of example_heap 1"
proof -
  let ?acc = "\<lparr>klass = (''accelerate'', ''Accelerator''), bases = [],
           attrs = [''prepare'' \<mapsto> VHost 0, ''device_placement'' \<mapsto> VBool True]\<rparr>"
  have 1: "map_of (heap example_state) 0 = Some ?acc"
    by (simp add: example_state_def example_heap_def)
  have 2: "attrs ?acc ''prepare'' = Some (VHost 0)"
    by simp
  from get_callbacks_mutates_only_prepare [OF 1 2, of v4_43_3 example_plugin VNone]
  obtain h' where h': "snd (get_callbacks_and_ready_for_train v4_43_3 example_plugin VNone
      (VRef 0) example_state) = example_state\<lparr>heap := h'\<rparr>"
      "\<forall>b. b \<noteq> 0 \<longrightarrow> map_of h' b = map_of (heap example_state) b"
    by blast
  from h'(2) have "map_of h' 1 = map_of (heap example_state) 1"
    by simp
  with h'(1) show ?thesis
    by (simp add: example_state_def)
qed

subsection \<open>Registration, constructor and callbacks\<close>

text \<open>
  Claim C7. Loading the module registers \<^verbatim>\<open>PaddingFreeAccelerationPlugin\<close> with the
  plugin registry, once, under the single key path
  \<^verbatim>\<open>training.attention.padding_free\<close>, and changes nothing else. The constructor
  returns a plugin exactly when the configuration holds the value \<^verbatim>\<open>huggingface\<close> at
  the key path \<^verbatim>\<open>training.attention.padding_free.method\<close>.
\<close>

theorem plugin_registration_and_constructor:
  "module_load st =
     st\<lparr>plugins := plugins st @
        [(''PaddingFreeAccelerationPlugin'', [''training.attention.padding_free''])]\<rparr>
   \<and> ((\<exists>p. init cfg = Inr p) \<longleftrightarrow>
        trace_key_path cfg [''training'', ''attention'', ''padding_free'', ''method'']
          = Some (Leaf (VStr ''huggingface'')))"
proof -
  have "split_on CHR ''.'' ''training.attention.padding_free.method'' []
          = [''training'', ''attention'', ''padding_free'', ''method'']"
    by simp
  then show ?thesis
    by (auto simp: module_load_def register_plugin_def init_def
        check_config_and_maybe_check_values_def split: option.splits if_splits)
qed

theorem plugin_registration_and_constructor_witness:
  "plugins (module_load example_state) =
     [(''PaddingFreeAccelerationPlugin'', [''training.attention.padding_free''])]
   \<and> init example_config = Inr example_plugin
   \<and> (\<nexists>p. init (Dict [(''training'', Dict [(''attention'', Dict [(''padding_free'',
       Dict [(''method'', Leaf (VStr ''other''))])])])]) = Inr p)"
proof -
  let ?other = "Dict [(''training'', Dict [(''attention'', Dict [(''padding_free'',
       Dict [(''method'', Leaf (VStr ''other''))])])])]"
  have 1: "trace_key_path example_config [''training'', ''attention'', ''padding_free'', ''method'']
          = Some (Leaf (VStr ''huggingface''))"
    by (simp add: example_config_def)
  have 2: "trace_key_path ?other [''training'', ''attention'', ''padding_free'', ''method'']
          = Some (Leaf (VStr ''other''))"
    by simp
  show ?thesis
    using plugin_registration_and_constructor [of example_state example_config]
      plugin_registration_and_constructor [of example_state ?other] 1 2 init_example
    by (simp add: example_state_def)
qed

text \<open>
  Claim C9, as amended. For every model and every accelerator that has a
  \<^verbatim>\<open>prepare\<close> attribute, \<^verbatim>\<open>get_callbacks_and_ready_for_train\<close> returns the empty
  list of callbacks; \<^verbatim>\<open>requires_agumentation\<close> is always true. The claim as stated
  includes the accelerator \<^verbatim>\<open>None\<close>, where reading \<^verbatim>\<open>accelerator.prepare\<close> raises
  \<^verbatim>\<open>AttributeError\<close> and nothing is returned.
\<close>

theorem get_callbacks_returns_no_callbacks:
  assumes "getattr (heap st) accelerator ''prepare'' = Inr old_prepare"
  shows "fst (get_callbacks_and_ready_for_train tv self model accelerator st) = Inr []
         \<and> requires_agumentation self = True"
proof -
  from assms obtain a acc where a: "accelerator = VRef a" "map_of (heap st) a = Some acc"
      "attrs acc ''prepare'' = Some old_prepare"
    by (auto simp: getattr_Inr)
  show ?thesis
    by (simp add: a(1) get_callbacks_and_ready_for_train_def patch_dataloader_ok [OF a(2,3)]
        requires_agumentation_def)
qed

theorem get_callbacks_returns_no_callbacks_witness:
  "fst (get_callbacks_and_ready_for_train v4_45_0 example_plugin VNone (VRef 0) example_state)
     = Inr []
   \<and> requires_agumentation example_plugin = True"
  by (rule get_callbacks_returns_no_callbacks [OF example_prepare_before])

theorem get_callbacks_None_counterexample:
  "get_callbacks_and_ready_for_train v4_43_3 example_plugin VNone VNone example_state
     = (Inl AttributeError, example_state)"
  by (simp add: get_callbacks_and_ready_for_train_def patch_dataloader_def
      below_transformers_version_eq)

text \<open>
  Claim C10. The hijack of the data loader is not gated by the version. At every
  installed version, \<^verbatim>\<open>_patch_dataloader\<close> returns and replaces the \<^verbatim>\<open>prepare\<close> of
  the accelerator by the patched method around the old one. The version selects only
  the class \<open>c\<close> the patched method closes over: that of \<^verbatim>\<open>ilab_utils\<close> below 4.44,
  that of transformers otherwise. With either class the patched method raises
  \<^verbatim>\<open>TypeError\<close> on a data loader whose \<^verbatim>\<open>collate_fn\<close> is not a
  \<^verbatim>\<open>DataCollatorForSeq2Seq\<close>, and replaces the \<^verbatim>\<open>collate_fn\<close> by a new object of
  class \<open>c\<close> on one whose \<^verbatim>\<open>collate_fn\<close> is.
\<close>

theorem patch_dataloader_not_version_gated:
  assumes "getattr (heap st) accelerator ''prepare'' = Inr old_prepare"
  shows "\<exists>c. c = (if version_lt tv v4_44 then ilab_DataCollatorWithFlattening
                    else transformers_DataCollatorWithFlattening)
     \<and> fst (patch_dataloader tv self accelerator st) = Inr ()
     \<and> getattr (heap (snd (patch_dataloader tv self accelerator st))) accelerator ''prepare''
          = Inr (VPrepare accelerator old_prepare c)
     \<and> (\<forall>host h dataloader collate_fn device_placement.
           isinstance h dataloader DataLoader
           \<and> getattr h dataloader ''collate_fn'' = Inr collate_fn
           \<and> \<not> isinstance h collate_fn DataCollatorForSeq2Seq
           \<longrightarrow> call host (VPrepare accelerator old_prepare c) [dataloader] device_placement h
                 = (Inl TypeError, h))
     \<and> (\<forall>host h dataloader collate_fn device_placement.
           isinstance h dataloader DataLoader
           \<and> getattr h dataloader ''collate_fn'' = Inr collate_fn
           \<and> isinstance h collate_fn DataCollatorForSeq2Seq
           \<longrightarrow> (\<exists>h' new ob.
                 call host (VPrepare accelerator old_prepare c) [dataloader] device_placement h
                   = (Inr dataloader, h')
                 \<and> getattr h' dataloader ''collate_fn'' = Inr (VRef new)
                 \<and> map_of h new = None
                 \<and> map_of h' new = Some ob \<and> klass ob = c))"
proof -
  let ?c = "if version_lt tv v4_44 then ilab_DataCollatorWithFlattening
            else transformers_DataCollatorWithFlattening"
  from assms obtain a acc where a: "accelerator = VRef a" "map_of (heap st) a = Some acc"
      "attrs acc ''prepare'' = Some old_prepare"
    by (auto simp: getattr_Inr)
  have 1: "fst (patch_dataloader tv self accelerator st) = Inr ()"
    by (simp add: a(1) patch_dataloader_ok [OF a(2,3)])
  have 2: "getattr (heap (snd (patch_dataloader tv self accelerator st))) accelerator ''prepare''
          = Inr (VPrepare accelerator old_prepare ?c)"
    by (simp add: a(1) patch_dataloader_ok [OF a(2,3)] update_conv')
  have 3: "\<forall>host h dataloader collate_fn device_placement.
           isinstance h dataloader DataLoader
           \<and> getattr h dataloader ''collate_fn'' = Inr collate_fn
           \<and> \<not> isinstance h collate_fn DataCollatorForSeq2Seq
           \<longrightarrow> call host (VPrepare accelerator old_prepare ?c) [dataloader] device_placement h
                 = (Inl TypeError, h)"
    using call_prepare_raises by blast
  have 4: "\<forall>host h dataloader collate_fn device_placement.
           isinstance h dataloader DataLoader
           \<and> getattr h dataloader ''collate_fn'' = Inr collate_fn
           \<and> isinstance h collate_fn DataCollatorForSeq2Seq
           \<longrightarrow> (\<exists>h' new ob.
                 call host (VPrepare accelerator old_prepare ?c) [dataloader] device_placement h
                   = (Inr dataloader, h')
                 \<and> getattr h' dataloader ''collate_fn'' = Inr (VRef new)
                 \<and> map_of h new = None
                 \<and> map_of h' new = Some ob \<and> klass ob = ?c)"
    using call_prepare_replaces by blast
  from 1 2 3 4 show ?thesis
    by blast
qed

theorem patch_dataloader_not_version_gated_witness:
  "getattr (heap (snd (patch_dataloader v4_43_3 example_plugin (VRef 0) example_state)))
      (VRef 0) ''prepare''
     = Inr (VPrepare (VRef 0) (VHost 0) ilab_DataCollatorWithFlattening)
   \<and> getattr (heap (snd (patch_dataloader v4_45_0 example_plugin (VRef 0) example_state)))
      (VRef 0) ''prepare''
     = Inr (VPrepare (VRef 0) (VHost 0) transformers_DataCollatorWithFlattening)"
  using patch_dataloader_not_version_gated [OF example_prepare_before, of v4_43_3 example_plugin]
    patch_dataloader_not_version_gated [OF example_prepare_before, of v4_45_0 example_plugin]
    v4_43_3_below v4_45_0_not_below
  by simp

end
